theory Spec2Isabelle
  imports Complex_Main "HOL-Library.Char_ord" "HOL-Library.List_Lexorder"
    "HOL-Library.Product_Lexorder"
begin

section \<open>Personal finance manager: store, authentication, aggregation\<close>

text \<open>
  A shallow embedding of \<^verbatim>\<open>app.py\<close>. The SQLite database is a record of four tables,
  each a list of rows in insertion order; every function that opens a connection takes
  the store and returns the store it leaves behind. A primary key is checked where the
  source inserts: a conflicting \<^verbatim>\<open>INSERT\<close> raises \<^verbatim>\<open>sqlite3.IntegrityError\<close>, which the
  source catches and turns into the result \<^verbatim>\<open>False\<close>.

  Conventions of the embedding:
  \<^item> a Python \<^verbatim>\<open>str\<close> is a \<open>string\<close>, one \<open>char\<close> per code point below 256;
  \<^item> a finite float, as an amount or a limit in a \<^verbatim>\<open>REAL\<close> column, is the \<open>real\<close> number it
    is; the arithmetic of pandas on float columns, which rounds, is a parameter of the
    functions of the dashboard;
  \<^item> \<^verbatim>\<open>hashlib.sha256(...).hexdigest()\<close> is a parameter \<open>H\<close> of the functions that hash.
\<close>

subsection \<open>Python strings\<close>

text \<open>\<^verbatim>\<open>str.isspace\<close> on one code point below 256: TAB to CR, FS to US, space, NEL, NBSP.\<close>

definition py_isspace :: "char \<Rightarrow> bool" where
  "py_isspace c =
     (let n = (of_char c :: nat)
      in (9 \<le> n \<and> n \<le> 13) \<or> (28 \<le> n \<and> n \<le> 32) \<or> n = 133 \<or> n = 160)"

text \<open>\<^verbatim>\<open>s.strip()\<close>: leading and trailing whitespace removed.\<close>

definition py_strip :: "string \<Rightarrow> string" where
  "py_strip s = rev (dropWhile py_isspace (rev (dropWhile py_isspace s)))"

subsection \<open>The store\<close>

text \<open>
  \<^verbatim>\<open>expenses.id\<close> is \<^verbatim>\<open>INTEGER PRIMARY KEY AUTOINCREMENT\<close>: a signed 64-bit rowid, one
  more than the largest rowid the table ever held (SQLite keeps that number in
  \<^verbatim>\<open>sqlite_sequence\<close>, here \<open>expenses_seq\<close>).
\<close>

record expense =
  exp_id :: int
  exp_username :: string
  exp_date :: string
  exp_category :: string
  exp_amount :: real
  exp_description :: string

record budget_row =
  bud_username :: string
  bud_category :: string
  bud_monthly_limit :: real

record store =
  users :: "(string \<times> string) list"
  categories :: "(string \<times> string) list"
  expenses :: "expense list"
  expenses_seq :: int
  budget :: "budget_row list"

text \<open>\<^verbatim>\<open>init_db\<close> on a fresh file: four empty tables.\<close>

definition init_db :: store where
  "init_db = \<lparr>users = [], categories = [], expenses = [], expenses_seq = 0, budget = []\<rparr>"

definition DEFAULT_CATEGORIES :: "string list" where
  "DEFAULT_CATEGORIES = [''Food'', ''Transport'', ''Health'', ''Entertainment'', ''Other'']"

subsection \<open>Auth helpers\<close>

text \<open>
  \<^verbatim>\<open>INSERT OR IGNORE INTO categories\<close>: a row whose key (username, category) is already
  there is skipped.
\<close>

definition insert_or_ignore_category :: "string \<Rightarrow> (string \<times> string) list \<Rightarrow> string \<Rightarrow> (string \<times> string) list" where
  "insert_or_ignore_category username cats cat =
     (if (username, cat) \<in> set cats then cats else cats @ [(username, cat)])"

text \<open>
  \<^verbatim>\<open>signup_user\<close>: the insert into \<^verbatim>\<open>users\<close> raises IntegrityError when the username is
  taken; nothing was written, the connection is closed without a commit and the result is
  \<^verbatim>\<open>False\<close>. Otherwise the default categories follow and everything is committed.
\<close>

definition signup_user :: "(string \<Rightarrow> string) \<Rightarrow> store \<Rightarrow> string \<Rightarrow> string \<Rightarrow> bool \<times> store" where
  "signup_user H db username password =
     (if username \<in> fst ` set (users db) then (False, db)
      else (True, db\<lparr>users := users db @ [(username, H password)],
                      categories := foldl (insert_or_ignore_category username)
                                      (categories db) DEFAULT_CATEGORIES\<rparr>))"

text \<open>
  \<^verbatim>\<open>login_user\<close>: \<^verbatim>\<open>fetchone\<close> gives the first row of the select, or \<^verbatim>\<open>None\<close>; a row is a
  one-element tuple, so it is truthy whenever it is there.
\<close>

definition login_user :: "(string \<Rightarrow> string) \<Rightarrow> store \<Rightarrow> string \<Rightarrow> string \<Rightarrow> bool" where
  "login_user H db username password =
     (case map snd (filter (\<lambda>r. fst r = username) (users db)) of
        [] \<Rightarrow> False
      | pw # _ \<Rightarrow> pw = H password)"

definition user_exists :: "store \<Rightarrow> string \<Rightarrow> bool" where
  "user_exists db username = (filter (\<lambda>r. fst r = username) (users db) \<noteq> [])"

subsection \<open>Categories\<close>

text \<open>
  \<^verbatim>\<open>add_category\<close>: the guard \<^verbatim>\<open>if not category\<close> looks at the name as given; the
  row inserted holds \<^verbatim>\<open>category.strip()\<close>, and a key that is already there raises
  IntegrityError, caught as \<^verbatim>\<open>False\<close>.
\<close>

definition add_category :: "store \<Rightarrow> string \<Rightarrow> string \<Rightarrow> bool \<times> store" where
  "add_category db username category =
     (if category = [] then (False, db)
      else if (username, py_strip category) \<in> set (categories db) then (False, db)
      else (True, db\<lparr>categories := categories db @ [(username, py_strip category)]\<rparr>))"

definition delete_category :: "store \<Rightarrow> string \<Rightarrow> string \<Rightarrow> store" where
  "delete_category db username category =
     (let exp_count = length (filter (\<lambda>e. exp_username e = username \<and> exp_category e = category)
                                (expenses db));
          bud_count = length (filter (\<lambda>b. bud_username b = username \<and> bud_category b = category)
                                (budget db))
      in if exp_count = 0 \<and> bud_count = 0
         then db\<lparr>categories := filter (\<lambda>r. \<not> (fst r = username \<and> snd r = category))
                                  (categories db)\<rparr>
         else db)"

subsection \<open>Expenses\<close>

datatype sqlite_error = OperationalError

definition MAX_ROWID :: int where
  "MAX_ROWID = 9223372036854775807"

text \<open>The largest rowid the table holds or ever held.\<close>

definition largest_rowid :: "store \<Rightarrow> int" where
  "largest_rowid db = fold max (map exp_id (expenses db)) (expenses_seq db)"

text \<open>
  \<^verbatim>\<open>add_expense\<close>: \<^verbatim>\<open>float(amount)\<close> is the amount itself, \<^verbatim>\<open>date_str\<close> and
  \<^verbatim>\<open>category\<close> are stored as given, the description stripped. With AUTOINCREMENT the
  insert fails (SQLITE_FULL, an uncaught \<^verbatim>\<open>sqlite3.OperationalError\<close>) once the largest
  rowid has been used.
\<close>

definition add_expense :: "store \<Rightarrow> string \<Rightarrow> string \<Rightarrow> string \<Rightarrow> real \<Rightarrow> string \<Rightarrow> sqlite_error + store" where
  "add_expense db username date_str category amount description =
     (let largest = largest_rowid db
      in if MAX_ROWID \<le> largest then Inl OperationalError
         else Inr (db\<lparr>expenses := expenses db @
                         [\<lparr>exp_id = largest + 1, exp_username = username, exp_date = date_str,
                           exp_category = category, exp_amount = amount,
                           exp_description = py_strip description\<rparr>],
                       expenses_seq := largest + 1\<rparr>))"

text \<open>A row of the data frame \<^verbatim>\<open>get_expenses\<close> returns; \<open>'d\<close> is the type of the date column.\<close>

record 'd exp_view =
  ev_id :: int
  ev_date :: 'd
  ev_category :: string
  ev_amount :: real
  ev_description :: string

definition get_expenses :: "store \<Rightarrow> string \<Rightarrow> string exp_view list" where
  "get_expenses db username =
     map (\<lambda>e. \<lparr>ev_id = exp_id e, ev_date = exp_date e, ev_category = exp_category e,
                ev_amount = exp_amount e, ev_description = exp_description e\<rparr>)
         (filter (\<lambda>e. exp_username e = username) (expenses db))"

definition delete_expense :: "store \<Rightarrow> int \<Rightarrow> store" where
  "delete_expense db expense_id =
     db\<lparr>expenses := filter (\<lambda>e. exp_id e \<noteq> expense_id) (expenses db)\<rparr>"

subsection \<open>Budgets\<close>

text \<open>\<^verbatim>\<open>INSERT OR REPLACE\<close>: the row with the same key is deleted, the new one inserted.\<close>

definition set_budget :: "store \<Rightarrow> string \<Rightarrow> string \<Rightarrow> real \<Rightarrow> store" where
  "set_budget db username category limit =
     db\<lparr>budget := filter (\<lambda>b. \<not> (bud_username b = username \<and> bud_category b = category))
                     (budget db) @
                   [\<lparr>bud_username = username, bud_category = category,
                     bud_monthly_limit = limit\<rparr>]\<rparr>"

text \<open>
  A row of the data frame \<^verbatim>\<open>get_budget\<close> returns: (category, monthly_limit). SQLite finds
  the rows of the user through the index of the primary key (username, category), so they
  come in the order of their categories.
\<close>

definition get_budget :: "store \<Rightarrow> string \<Rightarrow> (string \<times> real) list" where
  "get_budget db username =
     map (\<lambda>b. (bud_category b, bud_monthly_limit b))
         (sort_key bud_category (filter (\<lambda>b. bud_username b = username) (budget db)))"

subsection \<open>The exposed operations as commands\<close>

datatype command =
    Signup string string
  | AddCategory string string
  | DeleteCategory string string
  | AddExpense string string string real string
  | DeleteExpense int
  | SetBudget string string real

text \<open>One command on the store; an uncaught exception leaves the store as it was.\<close>

fun exec :: "(string \<Rightarrow> string) \<Rightarrow> store \<Rightarrow> command \<Rightarrow> store" where
  "exec H db (Signup u p) = snd (signup_user H db u p)"
| "exec H db (AddCategory u c) = snd (add_category db u c)"
| "exec H db (DeleteCategory u c) = delete_category db u c"
| "exec H db (AddExpense u d c a t) =
     (case add_expense db u d c a t of Inl _ \<Rightarrow> db | Inr db' \<Rightarrow> db')"
| "exec H db (DeleteExpense i) = delete_expense db i"
| "exec H db (SetBudget u c l) = set_budget db u c l"

definition run :: "(string \<Rightarrow> string) \<Rightarrow> command list \<Rightarrow> store" where
  "run H cmds = foldl (exec H) init_db cmds"

text \<open>The primary key of \<^verbatim>\<open>categories\<close>: no two rows with the same (username, category).\<close>

definition categories_unique :: "store \<Rightarrow> bool" where
  "categories_unique db = distinct (categories db)"

text \<open>
  The form \<^verbatim>\<open>YYYY-MM-DD\<close> that the caller of \<^verbatim>\<open>add_expense\<close> produces with
  \<^verbatim>\<open>d.strftime('%Y-%m-%d')\<close>: ten characters, digits around two hyphens.
\<close>

definition iso_date_form :: "string \<Rightarrow> bool" where
  "iso_date_form s =
     (length s = 10 \<and> s ! 4 = CHR ''-'' \<and> s ! 7 = CHR ''-''
      \<and> list_all (\<lambda>i. s ! i \<in> set ''0123456789'') [0, 1, 2, 3, 5, 6, 8, 9])"

subsection \<open>Float columns\<close>

text \<open>
  A value of a float64 column of a data frame: a finite float, given by the real number it
  is, an infinity, or NaN. What pandas computes on such columns is not code of the
  application, and its rounding depends on the algorithm pandas uses, so the functions of
  the dashboard take these operations as parameters:
  \<^item> \<open>fsum\<close>, the sum \<^verbatim>\<open>groupby(...)[col].sum()\<close> forms of the values of one group, which it
    gets in row order;
  \<^item> \<open>fmean\<close>, the \<^verbatim>\<open>Series.mean()\<close> of a column;
  \<^item> \<open>fdiv\<close>, the quotient of an element of a float column by a float, which raises
    nothing on a zero divisor.

  A comparison of a float with a constant is exact; it is false on NaN.
\<close>

datatype float_val = Finite real | PosInf | NegInf | NaN

fun float_gt :: "float_val \<Rightarrow> real \<Rightarrow> bool" where
  "float_gt (Finite x) y = (y < x)"
| "float_gt PosInf y = True"
| "float_gt NegInf y = False"
| "float_gt NaN y = False"

fun float_le :: "float_val \<Rightarrow> real \<Rightarrow> bool" where
  "float_le (Finite x) y = (x \<le> y)"
| "float_le PosInf y = False"
| "float_le NegInf y = True"
| "float_le NaN y = False"

text \<open>The float64 that the literal \<^verbatim>\<open>0.8\<close> denotes: 0x1.999999999999ap-1.\<close>

definition float_0_8 :: real where
  "float_0_8 = 3602879701896397 / 4503599627370496"

subsection \<open>Dashboard: daily average of the month\<close>

text \<open>
  A pandas \<^verbatim>\<open>Timestamp\<close> as \<^verbatim>\<open>pd.to_datetime\<close> puts one in the date column: a calendar date
  and a time of day (nanoseconds after midnight). \<^verbatim>\<open>.dt.date\<close> keeps the calendar date.
\<close>

record timestamp =
  ts_year :: nat
  ts_month :: nat
  ts_day :: nat
  ts_time :: nat

definition dt_date :: "timestamp \<Rightarrow> nat \<times> nat \<times> nat" where
  "dt_date t = (ts_year t, ts_month t, ts_day t)"

text \<open>
  \<^verbatim>\<open>df.groupby(key)[col].sum()\<close>: one entry per distinct key, keys sorted, each with the sum
  of the column over the rows of that key.
\<close>

definition groupby_sum :: "(real list \<Rightarrow> float_val) \<Rightarrow> ('r \<Rightarrow> 'k::linorder) \<Rightarrow> ('r \<Rightarrow> real) \<Rightarrow> 'r list \<Rightarrow> ('k \<times> float_val) list" where
  "groupby_sum fsum key col rows =
     map (\<lambda>k. (k, fsum (map col (filter (\<lambda>r. key r = k) rows))))
         (sort (remdups (map key rows)))"

definition daily_avg :: "(real list \<Rightarrow> float_val) \<Rightarrow> (float_val list \<Rightarrow> float_val) \<Rightarrow> timestamp exp_view list \<Rightarrow> float_val" where
  "daily_avg fsum fmean month_expenses =
     (if month_expenses \<noteq> []
      then fmean (map snd (groupby_sum fsum (\<lambda>r. dt_date (ev_date r)) ev_amount month_expenses))
      else Finite 0)"

text \<open>
  The daily average in the words of the specification: the mean of the per-day sums, over
  the calendar days that have at least one expense, in the order of the calendar; 0 for no
  expenses. The time of day plays no part.
\<close>

definition on_day :: "nat \<times> nat \<times> nat \<Rightarrow> timestamp exp_view \<Rightarrow> bool" where
  "on_day d r =
     (case d of (y, m, n) \<Rightarrow>
        ts_year (ev_date r) = y \<and> ts_month (ev_date r) = m \<and> ts_day (ev_date r) = n)"

definition active_days :: "timestamp exp_view list \<Rightarrow> (nat \<times> nat \<times> nat) set" where
  "active_days rows =
     {(ts_year (ev_date r), ts_month (ev_date r), ts_day (ev_date r)) | r. r \<in> set rows}"

definition spec_dailyAverage :: "(real list \<Rightarrow> float_val) \<Rightarrow> (float_val list \<Rightarrow> float_val) \<Rightarrow> timestamp exp_view list \<Rightarrow> float_val" where
  "spec_dailyAverage fsum fmean rows =
     (if rows = [] then Finite 0
      else fmean (map (\<lambda>d. fsum (map ev_amount (filter (on_day d) rows)))
                      (sorted_list_of_set (active_days rows))))"

subsection \<open>Dashboard: budget alerts\<close>

definition spent_by_cat :: "(real list \<Rightarrow> float_val) \<Rightarrow> 'd exp_view list \<Rightarrow> (string \<times> float_val) list" where
  "spent_by_cat fsum month_expenses =
     (if month_expenses \<noteq> [] then groupby_sum fsum ev_category ev_amount month_expenses
      else [])"

text \<open>
  \<^verbatim>\<open>pd.merge(left, right, on='category', how='left')\<close>: every left row, in order, with each
  right row of the same category, or once with NaN for the amount when there is none.
\<close>

definition merge_left :: "(string \<times> real) list \<Rightarrow> (string \<times> float_val) list \<Rightarrow> (string \<times> real \<times> float_val) list" where
  "merge_left left right =
     concat (map (\<lambda>(c, l). case filter (\<lambda>s. fst s = c) right of
                               [] \<Rightarrow> [(c, l, NaN)]
                             | ms \<Rightarrow> map (\<lambda>s. (c, l, snd s)) ms) left)"

text \<open>\<^verbatim>\<open>fillna({'amount': 0.0})\<close> on one value of the column: 0.0 for every NaN.\<close>

definition fillna_zero :: "float_val \<Rightarrow> float_val" where
  "fillna_zero v = (if v = NaN then Finite 0 else v)"

record merged_row =
  mr_category :: string
  mr_monthly_limit :: real
  mr_amount :: float_val
  mr_status :: float_val

text \<open>
  The frame \<^verbatim>\<open>merged\<close>: the merge, the NaN amounts filled, and the column \<^verbatim>\<open>status\<close>.
  The dashboard builds it when the user has an expense and a budget.
\<close>

definition merged :: "(real list \<Rightarrow> float_val) \<Rightarrow> (float_val \<Rightarrow> real \<Rightarrow> float_val) \<Rightarrow> (string \<times> real) list \<Rightarrow> 'd exp_view list \<Rightarrow> merged_row list" where
  "merged fsum fdiv bud_df month_expenses =
     map (\<lambda>(c, l, a). \<lparr>mr_category = c, mr_monthly_limit = l, mr_amount = fillna_zero a,
                         mr_status = fdiv (fillna_zero a) l\<rparr>)
         (merge_left bud_df (spent_by_cat fsum month_expenses))"

datatype alert = OverBudget | AlmostAtLimit

text \<open>
  The loop over \<^verbatim>\<open>merged.iterrows()\<close>: the messages it shows, in order (\<^verbatim>\<open>st.warning\<close> for
  over budget, \<^verbatim>\<open>st.info\<close> for almost at the limit), each with its category.
\<close>

fun budget_alerts :: "merged_row list \<Rightarrow> (string \<times> alert) list" where
  "budget_alerts [] = []"
| "budget_alerts (row # rows) =
     (if mr_monthly_limit row \<le> 0 then budget_alerts rows
      else if float_gt (mr_status row) 1 then (mr_category row, OverBudget) # budget_alerts rows
      else if float_gt (mr_status row) float_0_8
        then (mr_category row, AlmostAtLimit) # budget_alerts rows
      else budget_alerts rows)"

text \<open>
  The budget status in the words of the specification. The amount spent in a category is
  the sum of its expenses of the month, 0 if it has none (and 0 as well when that sum is
  not a number); the ratio is spent/limit. An entry with a limit of 0 or less is not
  classified; a ratio above 1.0 is over budget, a ratio above 0.8 and at most 1.0 is near
  the limit, a ratio of at most 0.8 gives no alert. A ratio that is not a number is in
  none of these classes.
\<close>

definition spent_in :: "(real list \<Rightarrow> float_val) \<Rightarrow> string \<Rightarrow> 'd exp_view list \<Rightarrow> float_val" where
  "spent_in fsum c rows =
     (if list_ex (\<lambda>r. ev_category r = c) rows
      then (case fsum (map ev_amount (filter (\<lambda>r. ev_category r = c) rows)) of
              NaN \<Rightarrow> Finite 0 | v \<Rightarrow> v)
      else Finite 0)"

definition spec_classification :: "real \<Rightarrow> float_val \<Rightarrow> alert option" where
  "spec_classification limit ratio =
     (if limit \<le> 0 then None
      else if float_gt ratio 1 then Some OverBudget
      else if float_gt ratio float_0_8 \<and> float_le ratio 1 then Some AlmostAtLimit
      else None)"

text \<open>
  Instances of the float operations for the examples. On whole numbers below \<open>2^53\<close> the
  float64 sum and mean do not round, a quotient that is a float itself is not rounded, and
  0.0 divided by 0.0 is NaN: on the values of the examples these functions give what
  pandas computes. Every theorem below is about all instances.
\<close>

definition example_sum :: "real list \<Rightarrow> float_val" where
  "example_sum xs = Finite (sum_list xs)"

fun finite_values :: "float_val list \<Rightarrow> real list option" where
  "finite_values [] = Some []"
| "finite_values (Finite x # vs) = map_option (Cons x) (finite_values vs)"
| "finite_values (v # vs) = None"

definition example_mean :: "float_val list \<Rightarrow> float_val" where
  "example_mean vs =
     (case finite_values vs of
        None \<Rightarrow> NaN
      | Some xs \<Rightarrow> if xs = [] then NaN else Finite (sum_list xs / real (length xs)))"

definition example_div :: "float_val \<Rightarrow> real \<Rightarrow> float_val" where
  "example_div a b =
     (case a of
        Finite x \<Rightarrow> if b \<noteq> 0 then Finite (x / b)
                     else if 0 < x then PosInf else if x < 0 then NegInf else NaN
      | v \<Rightarrow> v)"

subsection \<open>Export\<close>

text \<open>\<^verbatim>\<open>str(i)\<close> of an integer: its decimal digits, with a minus sign when negative.\<close>

function digits :: "nat \<Rightarrow> string" where
  "digits n = (if n < 10 then [''0123456789'' ! n]
               else digits (n div 10) @ [''0123456789'' ! (n mod 10)])"
  by pat_completeness auto
termination
  by (relation "measure id") auto

declare digits.simps [simp del]

definition str_int :: "int \<Rightarrow> string" where
  "str_int i = (if i < 0 then CHR ''-'' # digits (nat (- i)) else digits (nat i))"

text \<open>
  How a float without a fractional part and below \<open>10^16\<close> in size is written
  (\<^verbatim>\<open>12.0\<close>); the examples use it for the amount column. The functions below take the
  formatter of floats as a parameter.
\<close>

definition fmt_whole :: "real \<Rightarrow> string" where
  "fmt_whole x = str_int \<lfloor>x\<rfloor> @ ''.0''"

definition LF :: char where
  "LF = CHR 0x0A"

text \<open>
  The csv writer with minimal quoting: a field that contains the delimiter, the quote
  character, a line feed or a carriage return is put in quotes, its quote characters
  doubled. The line terminator is a line feed.
\<close>

definition csv_special :: "char \<Rightarrow> bool" where
  "csv_special c = (c = CHR '','' \<or> c = CHR 0x22 \<or> c = CHR 0x0A \<or> c = CHR 0x0D)"

definition csv_field :: "string \<Rightarrow> string" where
  "csv_field s =
     (if list_ex csv_special s
      then CHR 0x22 # concat (map (\<lambda>c. if c = CHR 0x22 then [c, c] else [c]) s) @ [CHR 0x22]
      else s)"

fun join_fields :: "string list \<Rightarrow> string" where
  "join_fields [] = []"
| "join_fields [f] = f"
| "join_fields (f # g # fs) = f @ CHR '','' # join_fields (g # fs)"

definition csv_line :: "string list \<Rightarrow> string" where
  "csv_line cells = join_fields (map csv_field cells) @ [LF]"

text \<open>
  \<^verbatim>\<open>df.to_csv(index=False)\<close> on the frame of \<^verbatim>\<open>get_expenses\<close>: the header line with the
  column names, then one line per row of the frame.
\<close>

definition to_csv_lines :: "(real \<Rightarrow> string) \<Rightarrow> string exp_view list \<Rightarrow> string list" where
  "to_csv_lines fmt_amount df =
     csv_line [''id'', ''date'', ''category'', ''amount'', ''description'']
     # map (\<lambda>r. csv_line [str_int (ev_id r), ev_date r, ev_category r,
                            fmt_amount (ev_amount r), ev_description r]) df"

definition to_csv :: "(real \<Rightarrow> string) \<Rightarrow> string exp_view list \<Rightarrow> string" where
  "to_csv fmt_amount df = concat (to_csv_lines fmt_amount df)"

text \<open>
  The export tab: the file is built, and the download button shown, only when the frame
  has a row (\<^verbatim>\<open>if not df.empty\<close>). \<open>None\<close>: nothing is exported.
\<close>

definition export_csv :: "(real \<Rightarrow> string) \<Rightarrow> store \<Rightarrow> string \<Rightarrow> string option" where
  "export_csv fmt_amount db username =
     (let df = get_expenses db username
      in if df \<noteq> [] then Some (to_csv fmt_amount df) else None)"

text \<open>No field of the frame, as it is written, holds a line feed.\<close>

definition lf_free :: "(real \<Rightarrow> string) \<Rightarrow> string exp_view list \<Rightarrow> bool" where
  "lf_free fmt_amount df =
     list_all (\<lambda>r. LF \<notin> set (ev_date r) \<and> LF \<notin> set (ev_category r)
                 \<and> LF \<notin> set (fmt_amount (ev_amount r)) \<and> LF \<notin> set (ev_description r)) df"

subsection \<open>Example stores\<close>

definition example_store :: store where
  "example_store =
     init_db\<lparr>categories := [(''al'', ''Food''), (''al'', ''Pets'')],
             budget := [\<lparr>bud_username = ''al'', bud_category = ''Food'',
                         bud_monthly_limit = 100\<rparr>]\<rparr>"

definition example_ledger :: store where
  "example_ledger =
     init_db\<lparr>expenses :=
               [\<lparr>exp_id = 1, exp_username = ''al'', exp_date = ''2024-03-15'',
                 exp_category = ''Food'', exp_amount = 12, exp_description = ''lunch''\<rparr>,
                \<lparr>exp_id = 2, exp_username = ''bo'', exp_date = ''2024-03-15'',
                 exp_category = ''Other'', exp_amount = 3, exp_description = []\<rparr>,
                \<lparr>exp_id = 3, exp_username = ''al'', exp_date = ''2024-03-16'',
                 exp_category = ''Health'', exp_amount = 40, exp_description = ''a, b''\<rparr>],
             expenses_seq := 3\<rparr>"

definition example_month :: "timestamp exp_view list" where
  "example_month =
    [\<lparr>ev_id = 1, ev_date = \<lparr>ts_year = 2024, ts_month = 3, ts_day = 1, ts_time = 0\<rparr>,
      ev_category = ''Food'', ev_amount = 100, ev_description = []\<rparr>,
     \<lparr>ev_id = 2, ev_date = \<lparr>ts_year = 2024, ts_month = 3, ts_day = 2, ts_time = 0\<rparr>,
      ev_category = ''Food'', ev_amount = 30, ev_description = []\<rparr>,
     \<lparr>ev_id = 3, ev_date = \<lparr>ts_year = 2024, ts_month = 3, ts_day = 1,
                            ts_time = 45000000000000\<rparr>,
      ev_category = ''Food'', ev_amount = 50, ev_description = []\<rparr>]"

section \<open>Properties\<close>

subsection \<open>Authentication\<close>

lemma filter_absent: "u \<notin> fst ` set xs \<Longrightarrow> filter (\<lambda>r. fst r = u) xs = []"
  by (induction xs) auto

lemma user_exists_iff: "user_exists db u \<longleftrightarrow> u \<in> fst ` set (users db)"
  by (auto simp: user_exists_def filter_empty_conv)

text \<open>
  C7: when the username is not taken, signup succeeds, a login with the same password
  then returns true, and a login with any password whose hash differs from the hash of
  the signup password returns false.
\<close>

theorem signup_then_login:
  assumes "\<not> user_exists db username"
  shows "fst (signup_user H db username password)
           \<and> login_user H (snd (signup_user H db username password)) username password
           \<and> (\<forall>p'. H p' \<noteq> H password \<longrightarrow>
                 \<not> login_user H (snd (signup_user H db username password)) username p')"
  using assms
  by (auto simp: signup_user_def login_user_def user_exists_iff filter_absent)

theorem signup_then_login_witness:
  "\<not> user_exists init_db ''alice''
   \<and> fst (signup_user rev init_db ''alice'' ''secret'')
   \<and> login_user rev (snd (signup_user rev init_db ''alice'' ''secret'')) ''alice'' ''secret''
   \<and> \<not> login_user rev (snd (signup_user rev init_db ''alice'' ''secret'')) ''alice'' ''wrong''"
proof -
  have h: "\<not> user_exists init_db ''alice''"
    by (simp add: user_exists_def init_db_def)
  have w: "rev ''wrong'' \<noteq> rev ''secret''"
    by simp
  note t = signup_then_login [OF h, of rev "''secret''"]
  from t have a: "fst (signup_user rev init_db ''alice'' ''secret'')"
    by (rule conjunct1)
  from t have b:
    "login_user rev (snd (signup_user rev init_db ''alice'' ''secret'')) ''alice'' ''secret''"
    by (rule conjunct2 [THEN conjunct1])
  from t have c: "\<forall>p'. rev p' \<noteq> rev ''secret'' \<longrightarrow>
        \<not> login_user rev (snd (signup_user rev init_db ''alice'' ''secret'')) ''alice'' p'"
    by (rule conjunct2 [THEN conjunct2])
  from c [rule_format, OF w] have d:
    "\<not> login_user rev (snd (signup_user rev init_db ''alice'' ''secret'')) ''alice'' ''wrong''" .
  from h a b d show ?thesis
    by (intro conjI)
qed

text \<open>
  C8: signup with a username that is already present fails (the result is \<^verbatim>\<open>False\<close>, the
  source's way of reporting the taken username) and leaves the whole store, the stored
  password hash included, as it was.
\<close>

theorem signup_taken_unchanged:
  "user_exists db username \<Longrightarrow> signup_user H db username password = (False, db)"
  by (simp add: signup_user_def user_exists_iff)

theorem signup_taken_unchanged_witness:
  "user_exists (init_db\<lparr>users := [(''alice'', rev ''secret'')]\<rparr>) ''alice''
   \<and> signup_user rev (init_db\<lparr>users := [(''alice'', rev ''secret'')]\<rparr>) ''alice'' ''other''
       = (False, init_db\<lparr>users := [(''alice'', rev ''secret'')]\<rparr>)"
proof -
  have h: "user_exists (init_db\<lparr>users := [(''alice'', rev ''secret'')]\<rparr>) ''alice''"
    by (simp add: user_exists_def)
  from h signup_taken_unchanged [OF h, of rev "''other''"] show ?thesis
    by (intro conjI)
qed

text \<open>
  C10: the result of login is a function of the rows of \<^verbatim>\<open>users\<close> with the given username
  and of the password: two stores whose \<^verbatim>\<open>users\<close> tables hold the same rows for that
  username (none in both, or the same hash) give the same result, whatever their other
  users, categories, expenses and budgets are.
\<close>

theorem login_depends_on_user_row:
  "filter (\<lambda>r. fst r = username) (users db1) = filter (\<lambda>r. fst r = username) (users db2)
   \<Longrightarrow> login_user H db1 username password = login_user H db2 username password"
  by (simp add: login_user_def)

theorem login_depends_on_user_row_witness:
  "filter (\<lambda>r. fst r = ''alice'') (users (init_db\<lparr>users := [(''alice'', rev ''secret'')]\<rparr>))
     = filter (\<lambda>r. fst r = ''alice'')
         (users (init_db\<lparr>users := [(''bob'', rev ''hunter2''), (''alice'', rev ''secret'')],
                         categories := [(''bob'', ''Food'')]\<rparr>))
   \<and> login_user rev (init_db\<lparr>users := [(''alice'', rev ''secret'')]\<rparr>) ''alice'' ''secret''
     = login_user rev
         (init_db\<lparr>users := [(''bob'', rev ''hunter2''), (''alice'', rev ''secret'')],
                   categories := [(''bob'', ''Food'')]\<rparr>) ''alice'' ''secret''"
proof -
  have h: "filter (\<lambda>r. fst r = ''alice'') (users (init_db\<lparr>users := [(''alice'', rev ''secret'')]\<rparr>))
     = filter (\<lambda>r. fst r = ''alice'')
         (users (init_db\<lparr>users := [(''bob'', rev ''hunter2''), (''alice'', rev ''secret'')],
                         categories := [(''bob'', ''Food'')]\<rparr>))"
    by simp
  from h login_depends_on_user_row [OF h, of rev "''secret''"] show ?thesis
    by (intro conjI)
qed

subsection \<open>Categories\<close>

lemma filter_key_removeAll:
  "filter (\<lambda>r. \<not> (fst r = u \<and> snd r = c)) xs = removeAll (u, c) xs"
  "filter (\<lambda>r. fst r = u \<longrightarrow> snd r \<noteq> c) xs = removeAll (u, c) xs"
  by (induction xs) auto

lemma delete_category_blocked:
  "(\<exists>e \<in> set (expenses db). exp_username e = u \<and> exp_category e = c)
     \<or> (\<exists>b \<in> set (budget db). bud_username b = u \<and> bud_category b = c)
   \<Longrightarrow> delete_category db u c = db"
  by (auto simp: delete_category_def Let_def filter_empty_conv)

lemma delete_category_free:
  "\<not> (\<exists>e \<in> set (expenses db). exp_username e = u \<and> exp_category e = c)
   \<Longrightarrow> \<not> (\<exists>b \<in> set (budget db). bud_username b = u \<and> bud_category b = c)
   \<Longrightarrow> delete_category db u c = db\<lparr>categories := removeAll (u, c) (categories db)\<rparr>"
  by (simp add: delete_category_def Let_def filter_empty_conv filter_key_removeAll)

lemma delete_category_other_tables:
  "users (delete_category db u c) = users db
   \<and> expenses (delete_category db u c) = expenses db
   \<and> expenses_seq (delete_category db u c) = expenses_seq db
   \<and> budget (delete_category db u c) = budget db"
  by (simp add: delete_category_def Let_def)

text \<open>
  C6: \<^verbatim>\<open>delete_category\<close> leaves the whole store unchanged when an expense or a budget of
  that user names the category; when neither does, it removes exactly the category row
  (username, category); the users, expenses and budget tables are never touched.
\<close>

theorem delete_category_guard:
  "((\<exists>e \<in> set (expenses db). exp_username e = u \<and> exp_category e = c)
      \<or> (\<exists>b \<in> set (budget db). bud_username b = u \<and> bud_category b = c)
     \<longrightarrow> delete_category db u c = db)
   \<and> (\<not> (\<exists>e \<in> set (expenses db). exp_username e = u \<and> exp_category e = c)
      \<and> \<not> (\<exists>b \<in> set (budget db). bud_username b = u \<and> bud_category b = c)
     \<longrightarrow> delete_category db u c = db\<lparr>categories := removeAll (u, c) (categories db)\<rparr>
         \<and> (u, c) \<notin> set (categories (delete_category db u c)))
   \<and> users (delete_category db u c) = users db
   \<and> expenses (delete_category db u c) = expenses db
   \<and> expenses_seq (delete_category db u c) = expenses_seq db
   \<and> budget (delete_category db u c) = budget db"
  using delete_category_blocked [of db u c] delete_category_free [of db u c]
    delete_category_other_tables [of db u c]
  by auto


text \<open>On a store with one budget for Food and none for Pets: Food stays, Pets goes.\<close>

theorem delete_category_guard_witness:
  "(\<exists>b \<in> set (budget example_store). bud_username b = ''al'' \<and> bud_category b = ''Food'')
   \<and> delete_category example_store ''al'' ''Food'' = example_store
   \<and> \<not> (\<exists>e \<in> set (expenses example_store). exp_username e = ''al'' \<and> exp_category e = ''Pets'')
   \<and> \<not> (\<exists>b \<in> set (budget example_store). bud_username b = ''al'' \<and> bud_category b = ''Pets'')
   \<and> delete_category example_store ''al'' ''Pets''
       = example_store\<lparr>categories := removeAll (''al'', ''Pets'') (categories example_store)\<rparr>"
proof -
  have b: "\<exists>b \<in> set (budget example_store). bud_username b = ''al'' \<and> bud_category b = ''Food''"
    by (simp add: example_store_def)
  have e: "\<not> (\<exists>e \<in> set (expenses example_store).
              exp_username e = ''al'' \<and> exp_category e = ''Pets'')"
    by (simp add: example_store_def init_db_def)
  have f: "\<not> (\<exists>b \<in> set (budget example_store).
              bud_username b = ''al'' \<and> bud_category b = ''Pets'')"
    by (simp add: example_store_def)
  note t1 = delete_category_guard [of example_store "''al''" "''Food''", THEN conjunct1,
      rule_format, OF disjI2, OF b]
  note t2 = delete_category_guard [of example_store "''al''" "''Pets''", THEN conjunct2,
      THEN conjunct1, rule_format, OF conjI, OF e f, THEN conjunct1]
  from b t1 e f t2 show ?thesis
    by (intro conjI)
qed

lemma insert_or_ignore_distinct:
  "distinct cats \<Longrightarrow> distinct (insert_or_ignore_category u cats c)"
  by (simp add: insert_or_ignore_category_def)

lemma foldl_insert_or_ignore_distinct:
  "distinct cats \<Longrightarrow> distinct (foldl (insert_or_ignore_category u) cats cs)"
  by (induction cs arbitrary: cats) (simp_all add: insert_or_ignore_distinct)

lemma exec_categories_unique:
  "categories_unique db \<Longrightarrow> categories_unique (exec H db cmd)"
  by (cases cmd)
     (auto simp: categories_unique_def signup_user_def add_category_def delete_category_def
        add_expense_def delete_expense_def set_budget_def Let_def
        foldl_insert_or_ignore_distinct split: sum.splits)

lemma foldl_exec_categories_unique:
  "categories_unique db \<Longrightarrow> categories_unique (foldl (exec H) db cmds)"
  by (induction cmds arbitrary: db) (simp_all add: exec_categories_unique)

lemma init_db_categories_unique: "categories_unique init_db"
  by (simp add: categories_unique_def init_db_def)

text \<open>
  C9: the key (username, category) is unique in the empty store, every command (signup,
  add and delete category, add and delete expense, set budget) keeps it unique, and so it
  is unique in every store reached from the empty one by any sequence of commands.
\<close>

theorem categories_key_unique:
  "categories_unique init_db
   \<and> (categories_unique db \<longrightarrow> categories_unique (exec H db cmd))
   \<and> categories_unique (run H cmds)"
  by (simp add: init_db_categories_unique exec_categories_unique run_def
      foldl_exec_categories_unique)

theorem categories_key_unique_witness:
  "categories_unique init_db
   \<and> categories_unique (exec rev init_db (Signup ''al'' ''pw''))
   \<and> categories_unique (run rev [Signup ''al'' ''pw'', AddCategory ''al'' ''Food'',
         AddCategory ''al'' ''Pets'', DeleteCategory ''al'' ''Other''])"
proof -
  note t = categories_key_unique [of init_db rev "Signup ''al'' ''pw''"
      "[Signup ''al'' ''pw'', AddCategory ''al'' ''Food'',
         AddCategory ''al'' ''Pets'', DeleteCategory ''al'' ''Other'']"]
  have i: "categories_unique init_db"
    by (simp add: categories_unique_def init_db_def)
  from t [THEN conjunct2, THEN conjunct1, rule_format, OF i]
  have s: "categories_unique (exec rev init_db (Signup ''al'' ''pw''))" .
  from i s t [THEN conjunct2, THEN conjunct2] show ?thesis
    by (intro conjI)
qed

text \<open>
  C3: a name that is not empty but consists of whitespace only passes the guard of
  \<^verbatim>\<open>add_category\<close>; the empty name is inserted and the result is \<^verbatim>\<open>True\<close>.
\<close>

theorem add_category_blank_accepted:
  "list_all py_isspace ''  ''
   \<and> add_category init_db ''alice'' ''  ''
       = (True, init_db\<lparr>categories := [(''alice'', [])]\<rparr>)"
  by (simp add: add_category_def py_strip_def py_isspace_def init_db_def)

text \<open>What \<^verbatim>\<open>add_category\<close> does on every input: only the empty name is refused by the guard.\<close>

lemma add_category_cases:
  "add_category db u c =
     (if c = [] \<or> (u, py_strip c) \<in> set (categories db) then (False, db)
      else (True, db\<lparr>categories := categories db @ [(u, py_strip c)]\<rparr>))"
  by (simp add: add_category_def)

subsection \<open>Expenses\<close>

lemma last_dropWhile: "dropWhile P xs \<noteq> [] \<Longrightarrow> last (dropWhile P xs) = last xs"
  by (induction xs) (auto split: if_splits)

lemma py_strip_ends:
  assumes "py_strip s \<noteq> []"
  shows "\<not> py_isspace (hd (py_strip s)) \<and> \<not> py_isspace (last (py_strip s))"
proof -
  let ?ys = "dropWhile py_isspace s"
  let ?zs = "dropWhile py_isspace (rev ?ys)"
  from assms have zs: "?zs \<noteq> []"
    by (simp add: py_strip_def)
  have ys: "?ys \<noteq> []"
  proof
    assume e: "?ys = []"
    have "?zs = []"
      by (simp only: e rev.simps dropWhile.simps)
    with zs show False
      by contradiction
  qed
  have "last (py_strip s) = hd ?zs"
    using zs by (simp add: py_strip_def last_rev)
  moreover have "\<not> py_isspace (hd ?zs)"
    using zs by (rule hd_dropWhile)
  moreover have "hd (py_strip s) = last ?zs"
    using zs by (simp add: py_strip_def hd_rev)
  moreover have "last ?zs = last (rev ?ys)"
    using zs by (rule last_dropWhile)
  moreover have "last (rev ?ys) = hd ?ys"
    using ys by (simp add: last_rev)
  moreover have "\<not> py_isspace (hd ?ys)"
    using ys by (rule hd_dropWhile)
  ultimately show ?thesis
    by simp
qed

lemma fold_max_ge: "a \<le> fold max xs (a::int)"
  by (induction xs arbitrary: a) (auto intro: order_trans [OF max.cobounded2])

lemma fold_max_upper: "x \<in> set xs \<Longrightarrow> x \<le> fold max xs (a::int)"
proof (induction xs arbitrary: a)
  case Nil
  then show ?case by simp
next
  case (Cons y ys)
  show ?case
  proof (cases "x = y")
    case True
    have "y \<le> max y a" by simp
    also have "\<dots> \<le> fold max ys (max y a)" by (rule fold_max_ge)
    finally show ?thesis using True by simp
  next
    case False
    with Cons show ?thesis by simp
  qed
qed

lemma largest_rowid_upper: "e \<in> set (expenses db) \<Longrightarrow> exp_id e \<le> largest_rowid db"
  by (simp add: largest_rowid_def fold_max_upper)

text \<open>
  C4 (as amended): when the rowid space is not used up, \<^verbatim>\<open>add_expense\<close> appends one row
  whose amount is the amount given (so positive when the amount given is positive), whose
  date is the string given (so of the form YYYY-MM-DD when the caller passes one), whose
  description is the stripped description, without whitespace at either end, and whose id
  differs from the id of every expense already stored.
\<close>

theorem add_expense_row:
  assumes "largest_rowid db < MAX_ROWID"
  shows "\<exists>row. add_expense db username date_str category amount description
             = Inr (db\<lparr>expenses := expenses db @ [row], expenses_seq := exp_id row\<rparr>)
           \<and> exp_username row = username \<and> exp_category row = category
           \<and> exp_amount row = amount \<and> (0 < amount \<longrightarrow> 0 < exp_amount row)
           \<and> exp_date row = date_str \<and> (iso_date_form date_str \<longrightarrow> iso_date_form (exp_date row))
           \<and> exp_description row = py_strip description
           \<and> (exp_description row = []
                \<or> \<not> py_isspace (hd (exp_description row))
                  \<and> \<not> py_isspace (last (exp_description row)))
           \<and> exp_id row \<notin> exp_id ` set (expenses db)"
proof -
  let ?row = "\<lparr>exp_id = largest_rowid db + 1, exp_username = username, exp_date = date_str,
               exp_category = category, exp_amount = amount,
               exp_description = py_strip description\<rparr>"
  have r: "add_expense db username date_str category amount description
             = Inr (db\<lparr>expenses := expenses db @ [?row], expenses_seq := exp_id ?row\<rparr>)"
    using assms by (simp add: add_expense_def Let_def)
  have f: "exp_id ?row \<notin> exp_id ` set (expenses db)"
  proof
    assume "exp_id ?row \<in> exp_id ` set (expenses db)"
    then obtain e where "e \<in> set (expenses db)" and "exp_id e = largest_rowid db + 1"
      by auto
    with largest_rowid_upper [of e db] show False
      by simp
  qed
  have s: "exp_description ?row = []
                \<or> \<not> py_isspace (hd (exp_description ?row))
                  \<and> \<not> py_isspace (last (exp_description ?row))"
    using py_strip_ends [of description] by auto
  show ?thesis
  proof (intro exI [of _ ?row] conjI)
    show "add_expense db username date_str category amount description
            = Inr (db\<lparr>expenses := expenses db @ [?row], expenses_seq := exp_id ?row\<rparr>)"
      by (rule r)
    show "exp_description ?row = []
            \<or> \<not> py_isspace (hd (exp_description ?row))
              \<and> \<not> py_isspace (last (exp_description ?row))"
      by (rule s)
    show "exp_id ?row \<notin> exp_id ` set (expenses db)"
      by (rule f)
  qed simp_all
qed

theorem add_expense_row_witness:
  "largest_rowid init_db < MAX_ROWID \<and> 0 < (12.5 :: real) \<and> iso_date_form ''2024-03-15''
   \<and> (\<exists>row. add_expense init_db ''alice'' ''2024-03-15'' ''Food'' 12.5 '' lunch ''
             = Inr (init_db\<lparr>expenses := expenses init_db @ [row], expenses_seq := exp_id row\<rparr>)
           \<and> 0 < exp_amount row \<and> iso_date_form (exp_date row)
           \<and> exp_description row = py_strip '' lunch ''
           \<and> exp_id row \<notin> exp_id ` set (expenses init_db))"
proof -
  have h: "largest_rowid init_db < MAX_ROWID"
    by (simp add: largest_rowid_def init_db_def MAX_ROWID_def)
  have a: "0 < (12.5 :: real)"
    by simp
  have d: "iso_date_form ''2024-03-15''"
    by (simp add: iso_date_form_def)
  from add_expense_row [OF h, of "''alice''" "''2024-03-15''" "''Food''" "12.5" "'' lunch ''"]
  obtain row where r: "add_expense init_db ''alice'' ''2024-03-15'' ''Food'' 12.5 '' lunch ''
             = Inr (init_db\<lparr>expenses := expenses init_db @ [row], expenses_seq := exp_id row\<rparr>)"
    and pa: "0 < (12.5 :: real) \<longrightarrow> 0 < exp_amount row"
    and pd: "iso_date_form ''2024-03-15'' \<longrightarrow> iso_date_form (exp_date row)"
    and ps: "exp_description row = py_strip '' lunch ''"
    and pf: "exp_id row \<notin> exp_id ` set (expenses init_db)"
    by (elim exE conjE) (rule that)
  from pa a have pa': "0 < exp_amount row" by (rule mp)
  from pd d have pd': "iso_date_form (exp_date row)" by (rule mp)
  from r pa' pd' ps pf have "add_expense init_db ''alice'' ''2024-03-15'' ''Food'' 12.5 '' lunch ''
             = Inr (init_db\<lparr>expenses := expenses init_db @ [row], expenses_seq := exp_id row\<rparr>)
           \<and> 0 < exp_amount row \<and> iso_date_form (exp_date row)
           \<and> exp_description row = py_strip '' lunch ''
           \<and> exp_id row \<notin> exp_id ` set (expenses init_db)"
    by (intro conjI)
  then have e: "\<exists>row. add_expense init_db ''alice'' ''2024-03-15'' ''Food'' 12.5 '' lunch ''
             = Inr (init_db\<lparr>expenses := expenses init_db @ [row], expenses_seq := exp_id row\<rparr>)
           \<and> 0 < exp_amount row \<and> iso_date_form (exp_date row)
           \<and> exp_description row = py_strip '' lunch ''
           \<and> exp_id row \<notin> exp_id ` set (expenses init_db)"
    by (rule exI)
  from h a d e show ?thesis
    by (intro conjI)
qed

text \<open>
  The amount and the date are not checked by \<^verbatim>\<open>add_expense\<close>: a negative amount and a
  string that is no date are stored as they come.
\<close>

theorem add_expense_nonpositive_counterexample:
  "add_expense init_db ''alice'' ''tomorrow'' ''Food'' (- 5) ''lunch''
     = Inr (init_db\<lparr>expenses := [\<lparr>exp_id = 1, exp_username = ''alice'', exp_date = ''tomorrow'',
                                    exp_category = ''Food'', exp_amount = - 5,
                                    exp_description = ''lunch''\<rparr>],
                      expenses_seq := 1\<rparr>)
   \<and> \<not> 0 < (- 5 :: real) \<and> \<not> iso_date_form ''tomorrow''"
  by (simp add: add_expense_def largest_rowid_def init_db_def MAX_ROWID_def py_strip_def
      py_isspace_def iso_date_form_def)

subsection \<open>Daily average\<close>

lemma dt_date_days: "set (map (\<lambda>r. dt_date (ev_date r)) rows) = active_days rows"
  by (auto simp: active_days_def dt_date_def)

lemma dt_date_on_day: "(dt_date (ev_date r) = d) = on_day d r"
  by (cases d) (auto simp: dt_date_def on_day_def)

lemma groupby_days:
  "map snd (groupby_sum fsum (\<lambda>r. dt_date (ev_date r)) ev_amount rows)
     = map (\<lambda>d. fsum (map ev_amount (filter (on_day d) rows)))
           (sorted_list_of_set (active_days rows))"
proof -
  have "sort (remdups (map (\<lambda>r. dt_date (ev_date r)) rows))
          = sorted_list_of_set (set (map (\<lambda>r. dt_date (ev_date r)) rows))"
    by (simp only: sorted_list_of_set_sort_remdups)
  then have "sort (remdups (map (\<lambda>r. dt_date (ev_date r)) rows))
          = sorted_list_of_set (active_days rows)"
    by (simp only: dt_date_days)
  then show ?thesis
    by (simp add: groupby_sum_def comp_def dt_date_on_day)
qed

lemma active_days_finite: "finite (active_days rows)"
  using dt_date_days [of rows, symmetric] by simp

text \<open>
  C2: the daily average is the mean of the per-day sums, one sum for each calendar day
  that has at least one expense and for no other day, and 0 for an empty list. Sum and
  mean are the float operations of pandas.
\<close>

theorem daily_avg_active_days:
  "daily_avg fsum fmean rows = spec_dailyAverage fsum fmean rows
   \<and> (rows = [] \<longrightarrow> daily_avg fsum fmean rows = Finite 0)
   \<and> (rows \<noteq> [] \<longrightarrow>
        daily_avg fsum fmean rows
          = fmean (map (\<lambda>d. fsum (map ev_amount (filter (on_day d) rows)))
                       (sorted_list_of_set (active_days rows)))
        \<and> length (sorted_list_of_set (active_days rows)) = card (active_days rows)
        \<and> (\<forall>d \<in> active_days rows. filter (on_day d) rows \<noteq> []))"
proof -
  have a: "\<forall>d \<in> active_days rows. filter (on_day d) rows \<noteq> []"
    by (auto simp: active_days_def on_day_def filter_empty_conv)
  have l: "length (sorted_list_of_set (active_days rows)) = card (active_days rows)"
    by simp
  show ?thesis
    using a l by (simp add: daily_avg_def spec_dailyAverage_def groupby_days)
qed

text \<open>
  Expenses of 100 and 50 on one day, at different times of the day, and 30 on another:
  the daily average is the mean of 150 and 30, which is 90.
\<close>

lemma example_month_days:
  "map snd (groupby_sum fsum (\<lambda>r. dt_date (ev_date r)) ev_amount example_month)
     = [fsum [100, 50], fsum [30]]"
  by (simp add: groupby_sum_def example_month_def dt_date_def)

lemma daily_avg_example:
  "fsum [100, 50] = Finite 150 \<Longrightarrow> fsum [30] = Finite 30
   \<Longrightarrow> fmean [Finite 150, Finite 30] = Finite 90
   \<Longrightarrow> daily_avg fsum fmean example_month = Finite 90"
  using example_month_days [of fsum] by (simp add: daily_avg_def example_month_def)

theorem daily_avg_active_days_witness:
  "example_month \<noteq> []
   \<and> daily_avg example_sum example_mean example_month = Finite 90
   \<and> spec_dailyAverage example_sum example_mean example_month = Finite 90
   \<and> length (sorted_list_of_set (active_days example_month)) = card (active_days example_month)
   \<and> card (active_days example_month) = 2"
proof -
  have "active_days example_month = {(2024, 3, 1), (2024, 3, 2)}"
    by (auto simp: dt_date_days [symmetric] example_month_def dt_date_def)
  then have k: "card (active_days example_month) = 2"
    by simp
  have n: "example_month \<noteq> []"
    by (simp add: example_month_def)
  have v: "daily_avg example_sum example_mean example_month = Finite 90"
    by (rule daily_avg_example) (simp_all add: example_sum_def example_mean_def)
  note t = daily_avg_active_days [of example_sum example_mean example_month]
  from t [THEN conjunct1] v
  have s: "spec_dailyAverage example_sum example_mean example_month = Finite 90"
    by (rule subst)
  from t [THEN conjunct2, THEN conjunct2, rule_format, OF n, THEN conjunct2, THEN conjunct1]
  have c: "length (sorted_list_of_set (active_days example_month))
             = card (active_days example_month)" .
  from n v s c k show ?thesis
    by (intro conjI)
qed

subsection \<open>Budget status\<close>

lemma filter_keyed_distinct:
  "distinct ks \<Longrightarrow>
   filter (\<lambda>s. fst s = c) (map (\<lambda>k. (k, f k)) ks) = (if c \<in> set ks then [(c, f c)] else [])"
  by (induction ks) auto

lemma groupby_sum_lookup:
  "filter (\<lambda>s. fst s = c) (groupby_sum fsum key col rows)
     = (if c \<in> key ` set rows
        then [(c, fsum (map col (filter (\<lambda>r. key r = c) rows)))] else [])"
proof -
  have d: "distinct (sort (remdups (map key rows)))"
    by simp
  show ?thesis
    unfolding groupby_sum_def
    by (simp only: filter_keyed_distinct [OF d]) simp
qed

lemma spent_by_cat_lookup:
  "filter (\<lambda>s. fst s = c) (spent_by_cat fsum rows)
     = (if c \<in> ev_category ` set rows
        then [(c, fsum (map ev_amount (filter (\<lambda>r. ev_category r = c) rows)))] else [])"
  by (cases "rows = []") (simp_all add: spent_by_cat_def groupby_sum_lookup)

lemma fillna_zero_case: "fillna_zero v = (case v of NaN \<Rightarrow> Finite 0 | w \<Rightarrow> w)"
  by (cases v) (simp_all add: fillna_zero_def)

lemma merge_left_spent:
  "merge_left bud_df (spent_by_cat fsum rows)
     = map (\<lambda>(c, l). (c, l, if c \<in> ev_category ` set rows
                              then fsum (map ev_amount (filter (\<lambda>r. ev_category r = c) rows))
                              else NaN))
         bud_df"
  by (induction bud_df) (auto simp: merge_left_def spent_by_cat_lookup)

lemma list_ex_category: "list_ex (\<lambda>r. ev_category r = c) rows = (c \<in> ev_category ` set rows)"
  by (auto simp: list_ex_iff)

lemma merged_rows:
  "merged fsum fdiv bud_df rows
     = map (\<lambda>(c, l). \<lparr>mr_category = c, mr_monthly_limit = l, mr_amount = spent_in fsum c rows,
                       mr_status = fdiv (spent_in fsum c rows) l\<rparr>) bud_df"
  by (induction bud_df)
     (auto simp: merged_def merge_left_spent spent_in_def list_ex_category fillna_zero_case
        fillna_zero_def)

lemma spec_classification_alert:
  "0 < l \<Longrightarrow>
   spec_classification l v
     = (if float_gt v 1 then Some OverBudget
        else if float_gt v float_0_8 then Some AlmostAtLimit else None)"
  by (cases v) (auto simp: spec_classification_def)

lemma budget_alerts_classified:
  "budget_alerts rows
     = List.map_filter
         (\<lambda>row. map_option (Pair (mr_category row))
                   (spec_classification (mr_monthly_limit row) (mr_status row))) rows"
proof (induction rows)
  case Nil
  show ?case
    by simp
next
  case (Cons row rows)
  show ?case
  proof (cases "mr_monthly_limit row \<le> 0")
    case True
    with Cons show ?thesis
      by (simp add: spec_classification_def)
  next
    case False
    then have "0 < mr_monthly_limit row"
      by simp
    with Cons show ?thesis
      by (simp add: spec_classification_alert)
  qed
qed

lemma map_filter_map: "List.map_filter f (map g xs) = List.map_filter (\<lambda>x. f (g x)) xs"
  by (induction xs) (simp_all split: option.splits)

text \<open>
  C1: the frame \<^verbatim>\<open>merged\<close> has one row per budget entry, in order, with the amount spent
  equal to the sum of the month's expenses of that category (0 when there are none) and
  the status equal to the quotient spent/limit; the alerts shown are those of the
  classification of that quotient: none for a limit of 0 or less, over budget above 1.0,
  almost at the limit above 0.8 and at most 1.0, none at 0.8 or below. Sum and quotient are
  the float operations of pandas, 1.0 and 0.8 the floats of these literals.
\<close>

theorem budget_status:
  "merged fsum fdiv bud_df month_expenses
     = map (\<lambda>(c, l). \<lparr>mr_category = c, mr_monthly_limit = l,
                       mr_amount = spent_in fsum c month_expenses,
                       mr_status = fdiv (spent_in fsum c month_expenses) l\<rparr>) bud_df
   \<and> budget_alerts (merged fsum fdiv bud_df month_expenses)
     = List.map_filter
         (\<lambda>(c, l). map_option (Pair c)
                      (spec_classification l (fdiv (spent_in fsum c month_expenses) l)))
         bud_df"
proof -
  have a: "budget_alerts (merged fsum fdiv bud_df month_expenses)
     = List.map_filter
         (\<lambda>(c, l). map_option (Pair c)
                      (spec_classification l (fdiv (spent_in fsum c month_expenses) l)))
         bud_df"
    unfolding budget_alerts_classified merged_rows map_filter_map
    by (rule arg_cong [where f = "\<lambda>f. List.map_filter f bud_df"]) (auto simp: fun_eq_iff)
  from merged_rows [of fsum fdiv bud_df month_expenses] a show ?thesis
    by (intro conjI)
qed

text \<open>The classes of the classification, one by one.\<close>

lemma spec_classification_classes:
  "limit \<le> 0 \<Longrightarrow> spec_classification limit ratio = None"
  "0 < limit \<Longrightarrow> float_gt ratio 1 \<Longrightarrow> spec_classification limit ratio = Some OverBudget"
  "0 < limit \<Longrightarrow> float_gt ratio float_0_8 \<Longrightarrow> float_le ratio 1
     \<Longrightarrow> spec_classification limit ratio = Some AlmostAtLimit"
  "0 < limit \<Longrightarrow> float_le ratio float_0_8 \<Longrightarrow> spec_classification limit ratio = None"
  by (cases ratio; simp add: spec_classification_def float_0_8_def)+

theorem budget_status_witness:
  "merged example_sum example_div [(''Food'', 120), (''Rent'', 0), (''Pets'', 50)] example_month
     = [\<lparr>mr_category = ''Food'', mr_monthly_limit = 120, mr_amount = Finite 180,
         mr_status = Finite (3 / 2)\<rparr>,
        \<lparr>mr_category = ''Rent'', mr_monthly_limit = 0, mr_amount = Finite 0, mr_status = NaN\<rparr>,
        \<lparr>mr_category = ''Pets'', mr_monthly_limit = 50, mr_amount = Finite 0,
         mr_status = Finite 0\<rparr>]
   \<and> budget_alerts
        (merged example_sum example_div [(''Food'', 120), (''Rent'', 0), (''Pets'', 50)]
           example_month)
     = [(''Food'', OverBudget)]"
proof -
  note t = budget_status [of example_sum example_div
      "[(''Food'', 120), (''Rent'', 0), (''Pets'', 50)]" example_month]
  have s: "spent_in example_sum ''Food'' example_month = Finite 180"
    "spent_in example_sum ''Rent'' example_month = Finite 0"
    "spent_in example_sum ''Pets'' example_month = Finite 0"
    by (simp_all add: spent_in_def example_month_def example_sum_def)
  have m: "map (\<lambda>(c, l). \<lparr>mr_category = c, mr_monthly_limit = l,
                       mr_amount = spent_in example_sum c example_month,
                       mr_status = example_div (spent_in example_sum c example_month) l\<rparr>)
             [(''Food'', 120), (''Rent'', 0), (''Pets'', 50)]
     = [\<lparr>mr_category = ''Food'', mr_monthly_limit = 120, mr_amount = Finite 180,
         mr_status = Finite (3 / 2)\<rparr>,
        \<lparr>mr_category = ''Rent'', mr_monthly_limit = 0, mr_amount = Finite 0, mr_status = NaN\<rparr>,
        \<lparr>mr_category = ''Pets'', mr_monthly_limit = 50, mr_amount = Finite 0,
         mr_status = Finite 0\<rparr>]"
    by (simp add: s example_div_def)
  have a: "List.map_filter
         (\<lambda>(c, l). map_option (Pair c)
                      (spec_classification l
                         (example_div (spent_in example_sum c example_month) l)))
         [(''Food'', 120), (''Rent'', 0), (''Pets'', 50)] = [(''Food'', OverBudget)]"
    by (simp add: s example_div_def spec_classification_def float_0_8_def)
  from t [THEN conjunct1] m
  have x: "merged example_sum example_div [(''Food'', 120), (''Rent'', 0), (''Pets'', 50)]
             example_month
     = [\<lparr>mr_category = ''Food'', mr_monthly_limit = 120, mr_amount = Finite 180,
         mr_status = Finite (3 / 2)\<rparr>,
        \<lparr>mr_category = ''Rent'', mr_monthly_limit = 0, mr_amount = Finite 0, mr_status = NaN\<rparr>,
        \<lparr>mr_category = ''Pets'', mr_monthly_limit = 50, mr_amount = Finite 0,
         mr_status = Finite 0\<rparr>]"
    by (rule trans)
  from t [THEN conjunct2] a
  have y: "budget_alerts
        (merged example_sum example_div [(''Food'', 120), (''Rent'', 0), (''Pets'', 50)]
           example_month)
     = [(''Food'', OverBudget)]"
    by (rule trans)
  from x y show ?thesis
    by (intro conjI)
qed

text \<open>
  The constant \<open>float_0_8\<close> is a float64 (a multiple of \<open>2^-53\<close> between 1/2 and 1), and
  the one nearest to 0.8: closer than half the spacing \<open>2^-53\<close> of the floats there.
\<close>

lemma float_0_8_nearest:
  "float_0_8 * 2 ^ 53 = 7205759403792794 \<and> \<bar>float_0_8 - 8 / 10\<bar> < 1 / 2 ^ 54"
  by (simp add: float_0_8_def)

text \<open>
  The example of the specification for any instance of the float operations that gives
  180 for the sum and 1.5 for the quotient: over budget.
\<close>

lemma budget_alerts_example:
  "fsum [100, 30, 50] = Finite 180 \<Longrightarrow> fdiv (Finite 180) 120 = Finite (3 / 2)
   \<Longrightarrow> budget_alerts (merged fsum fdiv [(''Food'', 120)] example_month)
        = [(''Food'', OverBudget)]"
  by (simp add: merged_rows spent_in_def example_month_def)

text \<open>
  At the thresholds: the float of 0.8 itself and everything below give no alert, 1.0 is
  almost at the limit, and a zero limit is skipped even where the quotient is infinite.
\<close>

lemma budget_alerts_thresholds:
  "budget_alerts [\<lparr>mr_category = c, mr_monthly_limit = 5, mr_amount = a,
                    mr_status = Finite float_0_8\<rparr>] = []"
  "budget_alerts [\<lparr>mr_category = c, mr_monthly_limit = 5, mr_amount = a,
                    mr_status = Finite 1\<rparr>] = [(c, AlmostAtLimit)]"
  "budget_alerts [\<lparr>mr_category = c, mr_monthly_limit = 0, mr_amount = a,
                    mr_status = PosInf\<rparr>] = []"
  by (simp_all add: float_0_8_def)

subsection \<open>Export\<close>

lemma digits_no_LF: "LF \<notin> set (digits n)"
proof (induction n rule: digits.induct)
  case (1 n)
  have d: "k < 10 \<Longrightarrow> ''0123456789'' ! k \<noteq> LF" for k :: nat
  proof -
    assume "k < 10"
    then have "k \<in> {0, 1, 2, 3, 4, 5, 6, 7, 8, 9}"
      by auto
    then show ?thesis
      by (auto simp: LF_def)
  qed
  show ?case
  proof (cases "n < 10")
    case True
    then show ?thesis
      by (subst digits.simps) (simp add: d d [THEN not_sym])
  next
    case False
    with "1" show ?thesis
      by (subst digits.simps) (simp add: d d [THEN not_sym])
  qed
qed

lemma minus_not_LF: "CHR ''-'' \<noteq> LF" "LF \<noteq> CHR ''-''"
  by (simp_all add: LF_def)

lemma str_int_no_LF: "LF \<notin> set (str_int i)"
  by (simp add: str_int_def digits_no_LF minus_not_LF)

lemma fmt_whole_no_LF: "LF \<notin> set (fmt_whole x)"
proof -
  have "LF \<notin> set ''.0''"
    by (simp add: LF_def)
  then show ?thesis
    by (simp add: fmt_whole_def str_int_no_LF)
qed

lemma csv_field_LF: "count_list (csv_field s) LF = count_list s LF"
proof -
  have "count_list (concat (map (\<lambda>c. if c = CHR 0x22 then [c, c] else [c]) s)) LF
          = count_list s LF"
    by (induction s) (auto simp: LF_def)
  then show ?thesis
    by (simp add: csv_field_def LF_def)
qed

lemma join_fields_LF:
  "count_list (join_fields fs) LF = sum_list (map (\<lambda>f. count_list f LF) fs)"
  by (induction fs rule: join_fields.induct) (simp_all add: LF_def)

lemma csv_line_LF:
  "count_list (csv_line cells) LF = Suc (sum_list (map (\<lambda>f. count_list f LF) cells))"
  by (simp add: csv_line_def join_fields_LF comp_def csv_field_LF)

lemma to_csv_LF:
  "lf_free fmt df \<Longrightarrow> count_list (to_csv fmt df) LF = Suc (length df)"
proof (induction df)
  case Nil
  show ?case
    by (simp add: to_csv_def to_csv_lines_def csv_line_LF) (simp add: LF_def)
next
  case (Cons r df)
  then have "count_list (to_csv fmt df) LF = Suc (length df)"
    by (simp add: lf_free_def)
  moreover have "count_list (csv_line [str_int (ev_id r), ev_date r, ev_category r,
                            fmt (ev_amount r), ev_description r]) LF = 1"
    using Cons.prems by (simp add: csv_line_LF lf_free_def str_int_no_LF)
  ultimately show ?case
    by (simp add: to_csv_def to_csv_lines_def)
qed

text \<open>
  C5 (as amended): for an owner without expenses nothing is exported; for an owner with
  at least one expense the export is produced, and it is the header line followed by one
  line per expense, N+1 lines for N expenses; when no field holds a line feed the text
  has exactly N+1 line feeds, one at the end of each line.
\<close>

theorem export_lines:
  "(get_expenses db username = [] \<longrightarrow> export_csv fmt db username = None)
   \<and> (get_expenses db username \<noteq> [] \<longrightarrow>
        export_csv fmt db username = Some (concat (to_csv_lines fmt (get_expenses db username)))
        \<and> length (to_csv_lines fmt (get_expenses db username))
            = length (get_expenses db username) + 1
        \<and> hd (to_csv_lines fmt (get_expenses db username))
            = ''id,date,category,amount,description'' @ [LF]
        \<and> (lf_free fmt (get_expenses db username) \<longrightarrow>
             count_list (concat (to_csv_lines fmt (get_expenses db username))) LF
               = length (get_expenses db username) + 1))"
proof -
  have n: "get_expenses db username = [] \<longrightarrow> export_csv fmt db username = None"
    by (simp add: export_csv_def Let_def)
  have e: "get_expenses db username \<noteq> [] \<longrightarrow>
           export_csv fmt db username
             = Some (concat (to_csv_lines fmt (get_expenses db username)))"
    by (simp add: export_csv_def Let_def to_csv_def)
  have l: "length (to_csv_lines fmt (get_expenses db username))
             = length (get_expenses db username) + 1"
    by (simp add: to_csv_lines_def)
  have h: "hd (to_csv_lines fmt (get_expenses db username))
             = ''id,date,category,amount,description'' @ [LF]"
    by (simp add: to_csv_lines_def csv_line_def csv_field_def csv_special_def)
  have c: "lf_free fmt (get_expenses db username) \<longrightarrow>
              count_list (concat (to_csv_lines fmt (get_expenses db username))) LF
                = length (get_expenses db username) + 1"
    using to_csv_LF [of fmt "get_expenses db username"] by (simp add: to_csv_def)
  from n e l h c show ?thesis
    by blast
qed

lemma example_ledger_al:
  "get_expenses example_ledger ''al''
     = [\<lparr>ev_id = 1, ev_date = ''2024-03-15'', ev_category = ''Food'', ev_amount = 12,
         ev_description = ''lunch''\<rparr>,
        \<lparr>ev_id = 3, ev_date = ''2024-03-16'', ev_category = ''Health'', ev_amount = 40,
         ev_description = ''a, b''\<rparr>]"
  by (simp add: get_expenses_def example_ledger_def)

lemma example_ledger_zed: "get_expenses example_ledger ''zed'' = []"
  by (simp add: get_expenses_def example_ledger_def)

theorem export_lines_witness:
  "get_expenses example_ledger ''zed'' = []
   \<and> export_csv fmt_whole example_ledger ''zed'' = None
   \<and> get_expenses example_ledger ''al'' \<noteq> []
   \<and> lf_free fmt_whole (get_expenses example_ledger ''al'')
   \<and> export_csv fmt_whole example_ledger ''al''
       = Some (concat (to_csv_lines fmt_whole (get_expenses example_ledger ''al'')))
   \<and> length (to_csv_lines fmt_whole (get_expenses example_ledger ''al'')) = 3
   \<and> count_list (concat (to_csv_lines fmt_whole (get_expenses example_ledger ''al''))) LF = 3"
proof -
  have z: "get_expenses example_ledger ''zed'' = []"
    by (rule example_ledger_zed)
  from export_lines [of example_ledger "''zed''" fmt_whole, THEN conjunct1, rule_format, OF z]
  have y: "export_csv fmt_whole example_ledger ''zed'' = None" .
  have n: "get_expenses example_ledger ''al'' \<noteq> []"
    by (simp add: example_ledger_al)
  have f: "lf_free fmt_whole (get_expenses example_ledger ''al'')"
    by (simp add: example_ledger_al lf_free_def fmt_whole_no_LF) (simp add: LF_def)
  have k: "length (get_expenses example_ledger ''al'') + 1 = 3"
    by (simp add: example_ledger_al)
  note t = export_lines [of example_ledger "''al''" fmt_whole, THEN conjunct2, rule_format, OF n]
  from t have a: "export_csv fmt_whole example_ledger ''al''
       = Some (concat (to_csv_lines fmt_whole (get_expenses example_ledger ''al'')))"
    by (rule conjunct1)
  from t [THEN conjunct2, THEN conjunct1] k
  have b: "length (to_csv_lines fmt_whole (get_expenses example_ledger ''al'')) = 3"
    by (rule trans)
  from t [THEN conjunct2, THEN conjunct2, THEN conjunct2, rule_format, OF f] k
  have c: "count_list (concat (to_csv_lines fmt_whole (get_expenses example_ledger ''al''))) LF = 3"
    by (rule trans)
  from z y n f a b c show ?thesis
    by (intro conjI)
qed

text \<open>The text exported for the example: the field with a comma is quoted.\<close>

lemma export_example:
  "export_csv fmt_whole example_ledger ''al''
     = Some (''id,date,category,amount,description'' @ [LF]
             @ ''1,2024-03-15,Food,12.0,lunch'' @ [LF]
             @ ''3,2024-03-16,Health,40.0,'' @ [CHR 0x22] @ ''a, b'' @ [CHR 0x22] @ [LF])"
  by (simp add: export_csv_def example_ledger_al to_csv_def to_csv_lines_def csv_line_def
      csv_field_def csv_special_def fmt_whole_def str_int_def digits.simps)

text \<open>
  For an owner without expenses the frame is empty and the export tab builds nothing:
  there is no output, not a header line alone.
\<close>

theorem export_empty_counterexample:
  "get_expenses init_db ''alice'' = [] \<and> export_csv fmt_whole init_db ''alice'' = None"
  by (simp add: export_csv_def get_expenses_def init_db_def)


end
